theory Spec2Isabelle
  imports Complex_Main "HOL-Library.Word"
begin

section \<open>Fort Siloso Voice Guide: the script \<open>app.py\<close>\<close>

text \<open>
  \<open>app.py\<close> is a Streamlit script: the framework executes the whole file from top to
  bottom once for every user interaction, and the only thing that survives from one
  execution to the next is \<open>st.session_state\<close>. The embedding below models one
  execution as the function \<open>app\<close>, from the widget values and the behaviour of the
  remote services during that execution and the session state before it, to the session
  state after it, the trace of what was rendered and which remote calls were made, and
  how the execution ended. A session is a list of executions.

  Python's \<open>str\<close> is modelled as \<open>string\<close>; the few characters of the source outside
  ASCII are written as their UTF-8 bytes. Strings are only ever compared and
  concatenated, so nothing depends on this encoding.
\<close>

subsection \<open>Data\<close>

type_synonym bytes = "8 word list"

text \<open>A chat message, the dictionary \<open>{"role": ..., "content": ...}\<close>.\<close>

record message =
  role :: string
  content :: string

text \<open>
  \<open>st.session_state\<close>: a dictionary from keys to values. The script stores a single key,
  \<open>"messages"\<close>, whose value is a list of messages.
\<close>

type_synonym session_state = "string \<rightharpoonup> message list"

text \<open>
  The exceptions that the script can meet. \<open>ServiceError\<close> stands for any exception
  raised by the OpenAI client (transport, authentication, service).
\<close>

datatype exn = IndexError | AttributeError string | ServiceError string

fun str_exn :: "exn \<Rightarrow> string" where
  "str_exn IndexError = ''list index out of range''"
| "str_exn (AttributeError a) = a"
| "str_exn (ServiceError m) = m"

subsection \<open>The remote services\<close>

record audio_file =
  file_name :: string
  file_data :: bytes

record transcription_request =
  stt_model :: string
  stt_file :: audio_file

record transcription =
  transcript_text :: string

record chat_request =
  model :: string
  messages :: "message list"
  temperature :: rat

text \<open>
  Of a completion the script reads \<open>completion.choices[0].message.content\<close>; a choice is
  modelled by that content, which the annotation \<open>-> str\<close> of the reading function takes
  to be text.
\<close>

record chat_completion =
  choices :: "string list"

record speech_request =
  tts_model :: string
  tts_voice :: string
  tts_input :: string

text \<open>The streamed response of the synthesis call; \<open>speech.read()\<close> may itself fail.\<close>

record speech =
  read :: "exn + bytes"

text \<open>What the three endpoints of the client answer during one execution of the script.\<close>

record client =
  transcriptions_create :: "transcription_request \<Rightarrow> exn + transcription"
  chat_completions_create :: "chat_request \<Rightarrow> exn + chat_completion"
  speech_create :: "speech_request \<Rightarrow> exn + speech"

datatype api_call =
  Transcribe transcription_request
| Chat chat_request
| Speech speech_request

subsection \<open>What an execution renders\<close>

datatype element =
  PageConfig string string string
| ErrorBox string
| Title string
| Markdown string
| Expander string bool "element list"
| Write string
| Selectbox string "string list" nat
| AudioRecorder string string string string
| Success string
| Audio bytes string
| Columns nat
| Button string bool bool
| Spinner string
| Subheader string

text \<open>\<open>Button label primary disabled\<close>: the third argument is the \<open>disabled\<close> flag.\<close>

datatype event = UI element | Call api_call

text \<open>
  How an execution ends: it runs to the last line, or \<open>st.stop()\<close> halts it, or
  \<open>st.rerun()\<close> halts it and asks for a new execution, or an exception escapes.
\<close>

datatype outcome = Completed | Stopped | Rerun | Crashed exn

record run_result =
  state :: session_state
  trace :: "event list"
  outcome :: outcome

text \<open>
  The inputs of one execution: the secret store, the constructor \<open>OpenAI(api_key=...)\<close> of
  the client library (it raises, or gives the client whose endpoints answer as above), and
  the values the widgets return (\<open>st.selectbox\<close>, \<open>audio_recorder\<close>, the two
  \<open>st.button\<close>s). The constructor belongs to the library, not to the script, so it is a
  parameter: nothing is assumed about which keys it accepts.
\<close>

record run_input =
  secrets :: "string \<rightharpoonup> string"
  OpenAI :: "string \<Rightarrow> exn + client"
  voice :: string
  audio_bytes :: "bytes option"
  send_now :: bool
  clear_chat :: bool

subsection \<open>Text constants of the script\<close>

definition nl :: string where
  "nl = [CHR 0x0A]"

definition microphone :: string where
  "microphone = [CHR 0xF0, CHR 0x9F, CHR 0x8E, CHR 0x99, CHR 0xEF, CHR 0xB8, CHR 0x8F]"

definition rightarrow :: string where
  "rightarrow = [CHR 0xE2, CHR 0x86, CHR 0x92]"

definition endash :: string where
  "endash = [CHR 0xE2, CHR 0x80, CHR 0x93]"

definition apostrophe :: string where
  "apostrophe = [CHR 0xE2, CHR 0x80, CHR 0x99]"

definition bust :: string where
  "bust = [CHR 0xF0, CHR 0x9F, CHR 0x91, CHR 0xA4]"

definition headphone :: string where
  "headphone = [CHR 0xF0, CHR 0x9F, CHR 0x8E, CHR 0xA7]"

definition missing_key_message :: string where
  "missing_key_message =
     ''OPENAI_API_KEY is not set.'' @ nl @ nl @
     ''On Streamlit Cloud, go to: **Settings '' @ rightarrow @ '' Secrets** and add:'' @ nl @
     ''OPENAI_API_KEY = your_real_key_here''"

definition system_prompt :: string where
  "system_prompt =
     ''You are a knowledgeable, friendly voice guide for Fort Siloso '' @
     ''on Sentosa Island, Singapore.'' @ nl @ nl @
     ''Guidelines:'' @ nl @
     ''- Answer only questions related to Fort Siloso, Sentosa history, '' @
     ''WWII coastal defence, the tunnels, guns, exhibits and visitor experience.'' @ nl @
     ''- If the user asks about something unrelated, reply briefly '' @
     ''that you only answer questions about Fort Siloso.'' @ nl @
     ''- Prefer short, spoken-style answers: 2'' @ endash @ ''4 sentences, '' @
     ''clear and conversational.'' @ nl @
     ''- If the user asks for highly time-sensitive info '' @
     ''(ticket prices, exact opening hours, special events), '' @
     ''give general guidance and ask them to check the official website '' @
     ''or on-site signage for exact details.''"

text \<open>The seed entry of the chat history (lines 31 to 50).\<close>

definition seed :: message where
  "seed = \<lparr>role = ''system'', content = system_prompt\<rparr>"

subsection \<open>Session state for chat history\<close>

text \<open>
  \<^verbatim>\<open>
  if "messages" not in st.session_state:
      st.session_state.messages = [ {"role": "system", "content": ...} ]
  \<close>
\<close>

definition session_init :: "session_state \<Rightarrow> session_state" where
  "session_init ss =
     (if ss ''messages'' = None then ss(''messages'' \<mapsto> [seed]) else ss)"

subsection \<open>The core pipeline\<close>

text \<open>
  Every function of the script can reach \<open>st.session_state\<close>, so each takes the session
  state and returns the state it leaves; it also returns its result (an exception or a
  value) and the remote calls it made, in order.
\<close>

type_synonym 'a io = "session_state \<Rightarrow> (exn + 'a) \<times> session_state \<times> api_call list"

text \<open>\<open>io.BytesIO(b)\<close>: the buffer holds \<open>b\<close>, and is empty for \<open>None\<close>.\<close>

fun BytesIO :: "bytes option \<Rightarrow> bytes" where
  "BytesIO None = []"
| "BytesIO (Some b) = b"

text \<open>
  \<^verbatim>\<open>
  def transcribe_question(audio_bytes):
      audio_file = io.BytesIO(audio_bytes)
      audio_file.name = "question.wav"
      transcript = client.audio.transcriptions.create(
          model="gpt-4o-mini-transcribe", file=audio_file)
      return transcript.text
  \<close>
\<close>

definition transcribe_question :: "client \<Rightarrow> bytes option \<Rightarrow> string io" where
  "transcribe_question cl ab ss =
     (let audio_file = \<lparr>file_name = ''question.wav'', file_data = BytesIO ab\<rparr>;
          req = \<lparr>stt_model = ''gpt-4o-mini-transcribe'', stt_file = audio_file\<rparr>
      in case transcriptions_create cl req of
           Inl e \<Rightarrow> (Inl e, ss, [Transcribe req])
         | Inr transcript \<Rightarrow> (Inr (transcript_text transcript), ss, [Transcribe req]))"

text \<open>
  \<^verbatim>\<open>
  def get_fort_siloso_answer(question_text):
      st.session_state.messages.append({"role": "user", "content": question_text})
      completion = client.chat.completions.create(
          model="gpt-4.1-mini", messages=st.session_state.messages, temperature=0.4)
      answer = completion.choices[0].message.content
      st.session_state.messages.append({"role": "assistant", "content": answer})
      return answer
  \<close>
  Reading \<open>st.session_state.messages\<close> raises \<open>AttributeError\<close> when the key is absent.
  The list handed to the client is the list object of the session state, after the
  first \<open>append\<close>. The literal \<open>0.4\<close> is modelled as the rational 4/10.
\<close>

definition get_fort_siloso_answer :: "client \<Rightarrow> string \<Rightarrow> string io" where
  "get_fort_siloso_answer cl question_text ss =
     (case ss ''messages'' of
        None \<Rightarrow> (Inl (AttributeError ''messages''), ss, [])
      | Some ms \<Rightarrow>
          (let ms1 = ms @ [\<lparr>role = ''user'', content = question_text\<rparr>];
               ss1 = ss(''messages'' \<mapsto> ms1);
               req = \<lparr>model = ''gpt-4.1-mini'', messages = ms1, temperature = 4 / 10\<rparr>
           in (case chat_completions_create cl req of
                 Inl e \<Rightarrow> (Inl e, ss1, [Chat req])
               | Inr completion \<Rightarrow>
                   (case choices completion of
                      [] \<Rightarrow> (Inl IndexError, ss1, [Chat req])
                    | answer # _ \<Rightarrow>
                        (Inr answer,
                         ss1(''messages'' \<mapsto>
                               ms1 @ [\<lparr>role = ''assistant'', content = answer\<rparr>]),
                         [Chat req])))))"

text \<open>
  \<^verbatim>\<open>
  def synthesize_answer(answer_text, voice_name):
      speech = client.audio.speech.create(
          model="gpt-4o-mini-tts", voice=voice_name, input=answer_text)
      audio_out = speech.read()
      return audio_out
  \<close>
\<close>

definition synthesize_answer :: "client \<Rightarrow> string \<Rightarrow> string \<Rightarrow> bytes io" where
  "synthesize_answer cl answer_text voice_name ss =
     (let req = \<lparr>tts_model = ''gpt-4o-mini-tts'', tts_voice = voice_name,
                 tts_input = answer_text\<rparr>
      in case speech_create cl req of
           Inl e \<Rightarrow> (Inl e, ss, [Speech req])
         | Inr sp \<Rightarrow> (read sp, ss, [Speech req]))"

subsection \<open>Chat history panel\<close>

text \<open>
  \<^verbatim>\<open>
  st.markdown("---")
  st.subheader("Conversation history")
  for msg in st.session_state.messages[1:]:
      role = "You" if msg["role"] == "user" else "Guide"     (each after its emoji)
      st.markdown(f"**{role}:** {msg['content']}")
  \<close>
\<close>

definition history_line :: "message \<Rightarrow> element" where
  "history_line msg =
     (let r = (if role msg = ''user'' then bust @ '' You'' else headphone @ '' Guide'')
      in Markdown (''**'' @ r @ '':** '' @ content msg))"

definition chat_history_panel :: "session_state \<Rightarrow> event list \<Rightarrow> run_result" where
  "chat_history_panel ss t =
     (let t1 = t @ [UI (Markdown ''---''), UI (Subheader ''Conversation history'')]
      in case ss ''messages'' of
           None \<Rightarrow> \<lparr>state = ss, trace = t1, outcome = Crashed (AttributeError ''messages'')\<rparr>
         | Some ms \<Rightarrow>
             \<lparr>state = ss, trace = t1 @ map (UI \<circ> history_line) (drop 1 ms),
              outcome = Completed\<rparr>)"

subsection \<open>Run the full flow\<close>

text \<open>
  The body of \<open>if send_now and audio_bytes:\<close> (lines 144 to 172), followed by the history
  panel when no stage has stopped the execution. The first argument is the global
  \<open>client\<close> of line 18. Each stage is wrapped in
  \<open>try: ... except Exception as e: st.error(f"... failed: {e}"); st.stop()\<close>.
\<close>

definition run_the_full_flow :: "client \<Rightarrow> run_input \<Rightarrow> session_state \<Rightarrow> event list \<Rightarrow> run_result" where
  "run_the_full_flow client inp ss t =
     (case transcribe_question client (audio_bytes inp) ss of
        (Inl e, ss1, c1) \<Rightarrow>
          \<lparr>state = ss1,
           trace = t @ [UI (Spinner ''Transcribing your question...'')] @ map Call c1 @
                   [UI (ErrorBox (''Transcription failed: '' @ str_exn e))],
           outcome = Stopped\<rparr>
      | (Inr question_text, ss1, c1) \<Rightarrow>
          (let t1 = t @ [UI (Spinner ''Transcribing your question...'')] @ map Call c1 @
                    [UI (Markdown ''**You said:**''), UI (Write question_text),
                     UI (Spinner ''Thinking about Fort Siloso...'')]
           in (case get_fort_siloso_answer client question_text ss1 of
                 (Inl e, ss2, c2) \<Rightarrow>
                   \<lparr>state = ss2,
                    trace = t1 @ map Call c2 @
                            [UI (ErrorBox (''LLM failed: '' @ str_exn e))],
                    outcome = Stopped\<rparr>
               | (Inr answer_text, ss2, c2) \<Rightarrow>
                   (let t2 = t1 @ map Call c2 @
                             [UI (Markdown ''**Guide says (text):**''), UI (Write answer_text),
                              UI (Spinner ''Generating spoken reply...'')]
                    in (case synthesize_answer client answer_text (voice inp) ss2 of
                          (Inl e, ss3, c3) \<Rightarrow>
                            \<lparr>state = ss3,
                             trace = t2 @ map Call c3 @
                                     [UI (ErrorBox (''TTS failed: '' @ str_exn e))],
                             outcome = Stopped\<rparr>
                        | (Inr answer_audio, ss3, c3) \<Rightarrow>
                            chat_history_panel ss3
                              (t2 @ map Call c3 @
                               [UI (Markdown ''### 3. Listen to the answer''),
                                UI (Audio answer_audio ''audio/mp3'')]))))))"

subsection \<open>The script\<close>

text \<open>Python truth of the recorder's value: \<open>None\<close> and the empty byte string are false.\<close>

fun truthy :: "bytes option \<Rightarrow> bool" where
  "truthy None = False"
| "truthy (Some b) = (b \<noteq> [])"

text \<open>Lines 10 to 14.\<close>

definition page_config :: "event list" where
  "page_config = [UI (PageConfig ''Fort Siloso Voice Guide'' microphone ''centered'')]"

text \<open>Lines 55 to 93: everything rendered between the session state and the handlers.\<close>

definition page_ui :: "bytes option \<Rightarrow> event list" where
  "page_ui ab =
     [UI (Title (microphone @ '' Fort Siloso Voice Guide'')),
      UI (Markdown
        (''1. Press the microphone and **ask a question out loud** about Fort Siloso.'' @ nl @
         ''2. Release to stop recording.'' @ nl @
         ''3. The guide will **speak back** with an answer.'')),
      UI (Expander ''About this guide'' False
        [Write (''This demo uses OpenAI'' @ apostrophe @
                ''s speech-to-text and text-to-speech models. '' @
                ''Voices are AI-generated.'')]),
      UI (Selectbox ''Voice for the guide''
        [''alloy'', ''echo'', ''fable'', ''onyx'', ''nova'', ''shimmer''] 0),
      UI (Markdown ''### 1. Record your question''),
      UI (AudioRecorder ''Click to start / stop recording'' ''#ff4b4b'' ''#6c757d'' ''3x'')] @
     (case ab of
        None \<Rightarrow> []
      | Some b \<Rightarrow>
          if b \<noteq> []
          then [UI (Success ''Recording captured! Scroll down to send it.''),
                UI (Audio b ''audio/wav'')]
          else []) @
     [UI (Markdown ''### 2. Send to Fort Siloso guide''),
      UI (Columns 2),
      UI (Button ''Ask in voice'' True (\<not> truthy ab)),
      UI (Button ''Reset conversation'' False False)]"

text \<open>
  Lines 95 to 97:
  \<^verbatim>\<open>
  if clear_chat:
      st.session_state.messages = st.session_state.messages[:1]
      st.rerun()
  \<close>
\<close>

definition reset_conversation :: "session_state \<Rightarrow> event list \<Rightarrow> run_result" where
  "reset_conversation ss t =
     (case ss ''messages'' of
        None \<Rightarrow> \<lparr>state = ss, trace = t, outcome = Crashed (AttributeError ''messages'')\<rparr>
      | Some ms \<Rightarrow> \<lparr>state = ss(''messages'' \<mapsto> take 1 ms), trace = t, outcome = Rerun\<rparr>)"

text \<open>
  Lines 17 to 19, the body of the \<open>try\<close>:
  \<^verbatim>\<open>
  client = OpenAI(api_key=st.secrets["OPENAI_API_KEY"])
  \<close>
  The lookup raises when the secret is absent, and the constructor may raise on the key it
  is given. The handler \<open>except Exception:\<close> does not look at the exception, so the result
  is the client or nothing.
\<close>

definition create_client :: "run_input \<Rightarrow> client option" where
  "create_client inp =
     (case secrets inp ''OPENAI_API_KEY'' of
        None \<Rightarrow> None
      | Some api_key \<Rightarrow>
          (case OpenAI inp api_key of
             Inl e \<Rightarrow> None
           | Inr client \<Rightarrow> Some client))"

text \<open>
  One execution of \<open>app.py\<close>. When the client cannot be created the handler shows the
  diagnostic and stops (lines 20 to 25).
\<close>

definition app :: "run_input \<Rightarrow> session_state \<Rightarrow> run_result" where
  "app inp ss =
     (case create_client inp of
        None \<Rightarrow>
          \<lparr>state = ss, trace = page_config @ [UI (ErrorBox missing_key_message)],
           outcome = Stopped\<rparr>
      | Some client \<Rightarrow>
          (let ss1 = session_init ss;
               t = page_config @ page_ui (audio_bytes inp)
           in if clear_chat inp then reset_conversation ss1 t
              else if send_now inp \<and> truthy (audio_bytes inp)
                   then run_the_full_flow client inp ss1 t
              else chat_history_panel ss1 t))"

text \<open>A session: the executions of the script one after another, on the state they leave.\<close>

fun session :: "run_input list \<Rightarrow> session_state \<Rightarrow> session_state" where
  "session [] ss = ss"
| "session (inp # inps) ss = session inps (state (app inp ss))"

subsection \<open>Properties of traces and histories\<close>

text \<open>The interactive controls of the page: voice choice, recorder, the two buttons.\<close>

fun widget :: "event \<Rightarrow> bool" where
  "widget (UI (Selectbox _ _ _)) = True"
| "widget (UI (AudioRecorder _ _ _ _)) = True"
| "widget (UI (Button _ _ _)) = True"
| "widget _ = False"

fun remote_call :: "event \<Rightarrow> bool" where
  "remote_call (Call _) = True"
| "remote_call (UI _) = False"

text \<open>
  A history is in order when it starts with the seed entry and every later entry is a
  question or an answer.
\<close>

definition history_ok :: "message list \<Rightarrow> bool" where
  "history_ok ms =
     (case ms of
        [] \<Rightarrow> False
      | m # rest \<Rightarrow>
          m = seed \<and> list_all (\<lambda>x. role x = ''user'' \<or> role x = ''assistant'') rest)"

definition seed_kept :: "session_state \<Rightarrow> bool" where
  "seed_kept ss = (case ss ''messages'' of None \<Rightarrow> True | Some ms \<Rightarrow> history_ok ms)"

subsection \<open>A concrete session\<close>

text \<open>
  The example scenario: the visitor asks about the Surrender Chamber, with
  the voice \<open>alloy\<close>. The variants make one of the remote services fail, press the reset
  button, leave the page idle, start without the credential, or start with a key that
  the constructor of the client refuses.
\<close>

definition demo_question :: string where
  "demo_question = ''What is the Surrender Chamber?''"

definition demo_answer :: string where
  "demo_answer = ''It depicts the 1942 British surrender...''"

definition demo_wav :: bytes where
  "demo_wav = [0x52, 0x49, 0x46, 0x46]"

definition demo_mp3 :: bytes where
  "demo_mp3 = [0x49, 0x44, 0x33]"

definition demo_client :: client where
  "demo_client =
     \<lparr>transcriptions_create = (\<lambda>_. Inr \<lparr>transcript_text = demo_question\<rparr>),
      chat_completions_create = (\<lambda>_. Inr \<lparr>choices = [demo_answer]\<rparr>),
      speech_create = (\<lambda>_. Inr \<lparr>read = Inr demo_mp3\<rparr>)\<rparr>"

definition stt_down_client :: client where
  "stt_down_client =
     demo_client\<lparr>transcriptions_create := (\<lambda>_. Inl (ServiceError ''Connection error.''))\<rparr>"

definition llm_down_client :: client where
  "llm_down_client =
     demo_client\<lparr>chat_completions_create := (\<lambda>_. Inl (ServiceError ''Connection error.''))\<rparr>"

definition tts_down_client :: client where
  "tts_down_client =
     demo_client\<lparr>speech_create := (\<lambda>_. Inl (ServiceError ''Connection error.''))\<rparr>"

definition demo_input :: run_input where
  "demo_input =
     \<lparr>secrets = [''OPENAI_API_KEY'' \<mapsto> ''sk-test''], OpenAI = (\<lambda>_. Inr demo_client),
      voice = ''alloy'', audio_bytes = Some demo_wav, send_now = True, clear_chat = False\<rparr>"

definition stt_down_input :: run_input where
  "stt_down_input = demo_input\<lparr>OpenAI := (\<lambda>_. Inr stt_down_client)\<rparr>"

definition llm_down_input :: run_input where
  "llm_down_input = demo_input\<lparr>OpenAI := (\<lambda>_. Inr llm_down_client)\<rparr>"

definition tts_down_input :: run_input where
  "tts_down_input = demo_input\<lparr>OpenAI := (\<lambda>_. Inr tts_down_client)\<rparr>"

definition reset_input :: run_input where
  "reset_input = demo_input\<lparr>audio_bytes := None, send_now := False, clear_chat := True\<rparr>"

definition idle_input :: run_input where
  "idle_input = demo_input\<lparr>audio_bytes := None, send_now := False\<rparr>"

definition no_key_input :: run_input where
  "no_key_input = idle_input\<lparr>secrets := Map.empty\<rparr>"

definition bad_key_input :: run_input where
  "bad_key_input =
     demo_input\<lparr>secrets := [''OPENAI_API_KEY'' \<mapsto> []],
                OpenAI := (\<lambda>_. Inl (ServiceError ''The api_key client option must be set''))\<rparr>"

definition fresh_session :: session_state where
  "fresh_session = [''messages'' \<mapsto> [seed]]"

definition demo_session :: session_state where
  "demo_session =
     [''messages'' \<mapsto>
        [seed, \<lparr>role = ''user'', content = demo_question\<rparr>,
         \<lparr>role = ''assistant'', content = demo_answer\<rparr>]]"

section \<open>Verification\<close>

subsection \<open>Auxiliary facts\<close>

text \<open>Unfolding the concrete session.\<close>

lemmas demo_defs = create_client_def demo_input_def demo_client_def stt_down_client_def llm_down_client_def
  tts_down_client_def stt_down_input_def llm_down_input_def tts_down_input_def
  reset_input_def idle_input_def no_key_input_def bad_key_input_def

lemma demo_wav_nonempty: "demo_wav \<noteq> []"
  by (simp add: demo_wav_def)

lemma session_init_fresh: "session_init fresh_session = fresh_session"
  by (simp add: session_init_def fresh_session_def)

text \<open>What each stage of the pipeline does to the session state.\<close>

lemma transcribe_question_frame:
  "transcribe_question cl ab ss = (r, s1, c1) \<Longrightarrow> s1 = ss"
  by (auto simp: transcribe_question_def Let_def split: sum.splits)

lemma synthesize_answer_frame:
  "synthesize_answer cl a v ss = (r, s1, c1) \<Longrightarrow> s1 = ss"
  by (auto simp: synthesize_answer_def Let_def split: sum.splits)

lemma get_fort_siloso_answer_Inr:
  "ss ''messages'' = Some ms \<Longrightarrow> get_fort_siloso_answer cl q ss = (Inr a, s2, c2) \<Longrightarrow>
   s2 = ss(''messages'' \<mapsto> ms @ [\<lparr>role = ''user'', content = q\<rparr>, \<lparr>role = ''assistant'', content = a\<rparr>])"
  by (auto simp: get_fort_siloso_answer_def Let_def split: sum.splits list.splits)

lemma get_fort_siloso_answer_Inl:
  "ss ''messages'' = Some ms \<Longrightarrow> get_fort_siloso_answer cl q ss = (Inl e, s2, c2) \<Longrightarrow>
   s2 = ss(''messages'' \<mapsto> ms @ [\<lparr>role = ''user'', content = q\<rparr>])"
  by (auto simp: get_fort_siloso_answer_def Let_def split: sum.splits list.splits)

lemma chat_history_panel_state: "state (chat_history_panel ss t) = ss"
  by (simp add: chat_history_panel_def Let_def split: option.splits)


text \<open>Which branch an execution takes.\<close>

lemma app_flow:
  assumes "create_client inp = Some client" "\<not> clear_chat inp" "send_now inp"
    "truthy (audio_bytes inp)"
  shows "app inp ss =
    run_the_full_flow client inp (session_init ss) (page_config @ page_ui (audio_bytes inp))"
  using assms by (simp add: app_def Let_def)

lemma app_reset:
  assumes "create_client inp = Some client" "clear_chat inp"
    "ss ''messages'' = Some (m # rest)"
  shows "state (app inp ss) = ss(''messages'' \<mapsto> [m]) \<and> outcome (app inp ss) = Rerun"
  using assms by (simp add: app_def Let_def session_init_def reset_conversation_def)

lemma app_without_key: "create_client inp = None \<Longrightarrow> state (app inp ss) = ss"
  by (simp add: app_def)

text \<open>What the parts of an execution add to the trace.\<close>

lemma page_config_quiet: "ev \<in> set page_config \<Longrightarrow> \<not> widget ev \<and> \<not> remote_call ev"
  by (auto simp: page_config_def)

lemma page_ui_no_call: "ev \<in> set (page_ui ab) \<Longrightarrow> \<not> remote_call ev"
  by (auto simp: page_ui_def split: option.splits if_splits)

lemma page_ui_send_button:
  "UI (Button ''Ask in voice'' True (\<not> truthy ab)) \<in> set (page_ui ab)"
  by (simp add: page_ui_def)

lemma page_ui_send_button_only:
  "UI (Button ''Ask in voice'' p d) \<in> set (page_ui ab) \<Longrightarrow> d = (\<not> truthy ab)"
  by (auto simp: page_ui_def split: option.splits if_splits)

lemma chat_history_panel_trace:
  "\<exists>rest. trace (chat_history_panel ss t) = t @ rest \<and>
          (\<forall>ev \<in> set rest. \<not> widget ev \<and> \<not> remote_call ev)"
  by (auto simp: chat_history_panel_def Let_def history_line_def split: option.splits)

lemma run_the_full_flow_trace:
  "\<exists>rest. trace (run_the_full_flow client inp ss t) = t @ rest \<and> (\<forall>ev \<in> set rest. \<not> widget ev)"
proof -
  obtain r1 s1 c1 where stt: "transcribe_question client (audio_bytes inp) ss = (r1, s1, c1)"
    by (cases "transcribe_question client (audio_bytes inp) ss") auto
  show ?thesis
  proof (cases r1)
    case (Inl e)
    then show ?thesis
      using stt by (auto simp: run_the_full_flow_def)
  next
    case q: (Inr q)
    obtain r2 s2 c2 where llm: "get_fort_siloso_answer client q s1 = (r2, s2, c2)"
      by (cases "get_fort_siloso_answer client q s1") auto
    show ?thesis
    proof (cases r2)
      case (Inl e)
      then show ?thesis
        using stt q llm by (auto simp: run_the_full_flow_def)
    next
      case a: (Inr a)
      obtain r3 s3 c3 where tts: "synthesize_answer client a (voice inp) s2 = (r3, s3, c3)"
        by (cases "synthesize_answer client a (voice inp) s2") auto
      show ?thesis
      proof (cases r3)
        case (Inl e)
        then show ?thesis
          using stt q llm a tts by (auto simp: run_the_full_flow_def)
      next
        case (Inr audio)
        obtain rest where rest:
          "trace (chat_history_panel s3
             (t @ [UI (Spinner ''Transcribing your question...'')] @ map Call c1 @
              [UI (Markdown ''**You said:**''), UI (Write q),
               UI (Spinner ''Thinking about Fort Siloso...'')] @ map Call c2 @
              [UI (Markdown ''**Guide says (text):**''), UI (Write a),
               UI (Spinner ''Generating spoken reply...'')] @ map Call c3 @
              [UI (Markdown ''### 3. Listen to the answer''), UI (Audio audio ''audio/mp3'')])) =
           (t @ [UI (Spinner ''Transcribing your question...'')] @ map Call c1 @
              [UI (Markdown ''**You said:**''), UI (Write q),
               UI (Spinner ''Thinking about Fort Siloso...'')] @ map Call c2 @
              [UI (Markdown ''**Guide says (text):**''), UI (Write a),
               UI (Spinner ''Generating spoken reply...'')] @ map Call c3 @
              [UI (Markdown ''### 3. Listen to the answer''), UI (Audio audio ''audio/mp3'')]) @ rest"
          "\<forall>ev \<in> set rest. \<not> widget ev \<and> \<not> remote_call ev"
          using chat_history_panel_trace by blast
        show ?thesis
          using stt q llm a tts Inr rest by (auto simp: run_the_full_flow_def)
      qed
    qed
  qed
qed

text \<open>Histories in order stay in order.\<close>

lemma history_ok_seed:
  assumes "history_ok ms"
  shows "\<exists>rest. ms = seed # rest \<and> seed \<notin> set rest"
proof (cases ms)
  case Nil
  then show ?thesis using assms by (simp add: history_ok_def)
next
  case (Cons m rest)
  have roles: "\<forall>x \<in> set rest. role x = ''user'' \<or> role x = ''assistant''"
    using assms Cons by (simp add: history_ok_def list_all_iff)
  have "role seed = ''system''"
    by (simp add: seed_def)
  then have "seed \<notin> set rest"
    using roles by auto
  then show ?thesis
    using assms Cons by (simp add: history_ok_def)
qed

lemma history_ok_seed_only: "history_ok [seed]"
  by (simp add: history_ok_def)

lemma history_ok_take: "history_ok ms \<Longrightarrow> history_ok (take 1 ms)"
  by (cases ms) (simp_all add: history_ok_def)

lemma history_ok_user: "history_ok ms \<Longrightarrow> history_ok (ms @ [\<lparr>role = ''user'', content = q\<rparr>])"
  by (cases ms) (simp_all add: history_ok_def)

lemma history_ok_assistant:
  "history_ok ms \<Longrightarrow> history_ok (ms @ [\<lparr>role = ''assistant'', content = a\<rparr>])"
  by (cases ms) (simp_all add: history_ok_def)

lemma session_init_messages:
  "\<exists>ms. session_init ss ''messages'' = Some ms \<and> (seed_kept ss \<longrightarrow> history_ok ms)"
  by (auto simp: session_init_def seed_kept_def history_ok_seed_only)

lemma get_fort_siloso_answer_history:
  assumes "ss ''messages'' = Some ms"
  shows "\<exists>ms'. fst (snd (get_fort_siloso_answer cl q ss)) ''messages'' = Some ms' \<and>
               (history_ok ms \<longrightarrow> history_ok ms')"
  using assms history_ok_user [of ms q] history_ok_assistant [of "ms @ [\<lparr>role = ''user'', content = q\<rparr>]"]
  by (auto simp: get_fort_siloso_answer_def Let_def split: sum.splits list.splits)

lemma run_the_full_flow_history:
  assumes before: "ss ''messages'' = Some ms"
  shows "\<exists>ms'. state (run_the_full_flow client inp ss t) ''messages'' = Some ms' \<and>
               (history_ok ms \<longrightarrow> history_ok ms')"
proof -
  obtain r1 s1 c1 where stt: "transcribe_question client (audio_bytes inp) ss = (r1, s1, c1)"
    by (cases "transcribe_question client (audio_bytes inp) ss") auto
  have s1: "s1 = ss"
    using stt by (rule transcribe_question_frame)
  show ?thesis
  proof (cases r1)
    case (Inl e)
    then show ?thesis
      using stt s1 before by (simp add: run_the_full_flow_def)
  next
    case q: (Inr q)
    obtain r2 s2 c2 where llm: "get_fort_siloso_answer client q s1 = (r2, s2, c2)"
      by (cases "get_fort_siloso_answer client q s1") auto
    obtain ms' where ms': "s2 ''messages'' = Some ms'" "history_ok ms \<longrightarrow> history_ok ms'"
      using get_fort_siloso_answer_history [of ss ms client q] before llm s1 by auto
    show ?thesis
    proof (cases r2)
      case (Inl e)
      then show ?thesis
        using stt q llm ms' by (simp add: run_the_full_flow_def)
    next
      case a: (Inr a)
      obtain r3 s3 c3 where tts: "synthesize_answer client a (voice inp) s2 = (r3, s3, c3)"
        by (cases "synthesize_answer client a (voice inp) s2") auto
      have s3: "s3 = s2"
        using tts by (rule synthesize_answer_frame)
      show ?thesis
        using stt q llm a tts s3 ms'
        by (cases r3) (simp_all add: run_the_full_flow_def chat_history_panel_state)
    qed
  qed
qed

lemma app_history:
  assumes key: "create_client inp = Some client"
  shows "\<exists>ms'. state (app inp ss) ''messages'' = Some ms' \<and> (seed_kept ss \<longrightarrow> history_ok ms')"
proof -
  obtain ms where ms: "session_init ss ''messages'' = Some ms" "seed_kept ss \<longrightarrow> history_ok ms"
    using session_init_messages by blast
  show ?thesis
  proof (cases "clear_chat inp")
    case True
    then show ?thesis
      using key ms history_ok_take [of ms]
      by (auto simp: app_def Let_def reset_conversation_def)
  next
    case False
    show ?thesis
    proof (cases "send_now inp \<and> truthy (audio_bytes inp)")
      case True
      then have "app inp ss =
          run_the_full_flow client inp (session_init ss) (page_config @ page_ui (audio_bytes inp))"
        using key False by (simp add: app_def Let_def)
      then show ?thesis
        using run_the_full_flow_history
                [of "session_init ss" ms client inp "page_config @ page_ui (audio_bytes inp)"] ms
        by auto
    next
      case no_turn: False
      then have "state (app inp ss) = session_init ss"
        using key False by (auto simp: app_def Let_def chat_history_panel_state)
      then show ?thesis
        using ms by simp
    qed
  qed
qed

lemma app_seed_kept: "seed_kept ss \<Longrightarrow> seed_kept (state (app inp ss))"
proof (cases "create_client inp")
  case None
  assume "seed_kept ss"
  then show ?thesis using None by (simp add: app_without_key)
next
  case (Some k)
  assume "seed_kept ss"
  then show ?thesis
    using app_history [OF Some, of ss] by (auto simp: seed_kept_def)
qed

lemma session_seed_kept: "seed_kept ss \<Longrightarrow> seed_kept (session inps ss)"
  by (induction inps arbitrary: ss) (simp_all add: app_seed_kept)

lemma app_messages_None:
  assumes "state (app inp ss) ''messages'' = None"
  shows "create_client inp = None \<and> ss ''messages'' = None"
proof (cases "create_client inp")
  case None
  then show ?thesis using assms by (simp add: app_without_key)
next
  case (Some k)
  then show ?thesis
    using app_history [OF Some, of ss] assms by auto
qed

lemma session_messages_None:
  "session inps ss ''messages'' = None \<Longrightarrow>
   ss ''messages'' = None \<and> list_all (\<lambda>inp. create_client inp = None) inps"
proof (induction inps arbitrary: ss)
  case Nil
  then show ?case by simp
next
  case (Cons inp inps)
  then have "state (app inp ss) ''messages'' = None \<and>
             list_all (\<lambda>inp. create_client inp = None) inps"
    by simp
  then show ?case
    using app_messages_None [of inp ss] by simp
qed

text \<open>What a turn adds to an existing history.\<close>

lemma seed_not_user: "seed \<noteq> \<lparr>role = ''user'', content = q\<rparr>"
  by (simp add: seed_def)

lemma seed_not_assistant: "seed \<noteq> \<lparr>role = ''assistant'', content = a\<rparr>"
  by (simp add: seed_def)

lemma get_fort_siloso_answer_appends:
  assumes "ss ''messages'' = Some ms"
  shows "\<exists>more. fst (snd (get_fort_siloso_answer cl q ss)) = ss(''messages'' \<mapsto> ms @ more) \<and>
               length more \<le> 2 \<and> seed \<notin> set more"
proof (cases "fst (get_fort_siloso_answer cl q ss)")
  case (Inl e)
  then have "fst (snd (get_fort_siloso_answer cl q ss)) =
      ss(''messages'' \<mapsto> ms @ [\<lparr>role = ''user'', content = q\<rparr>])"
    using assms get_fort_siloso_answer_Inl [of ss ms cl q e]
    by (cases "get_fort_siloso_answer cl q ss") auto
  then show ?thesis
    using seed_not_user [of q] by (intro exI [of _ "[\<lparr>role = ''user'', content = q\<rparr>]"]) simp
next
  case (Inr a)
  then have "fst (snd (get_fort_siloso_answer cl q ss)) =
      ss(''messages'' \<mapsto> ms @ [\<lparr>role = ''user'', content = q\<rparr>,
                                 \<lparr>role = ''assistant'', content = a\<rparr>])"
    using assms get_fort_siloso_answer_Inr [of ss ms cl q a]
    by (cases "get_fort_siloso_answer cl q ss") auto
  then show ?thesis
    using seed_not_user [of q] seed_not_assistant [of a]
    by (intro exI [of _ "[\<lparr>role = ''user'', content = q\<rparr>,
                          \<lparr>role = ''assistant'', content = a\<rparr>]"]) simp
qed

lemma run_the_full_flow_appends:
  assumes before: "ss ''messages'' = Some ms"
  shows "\<exists>more. state (run_the_full_flow client inp ss t) = ss(''messages'' \<mapsto> ms @ more) \<and>
               length more \<le> 2 \<and> seed \<notin> set more"
proof -
  have same: "ss(''messages'' \<mapsto> ms @ []) = ss"
    using before by (simp add: map_upd_triv)
  obtain r1 s1 c1 where stt: "transcribe_question client (audio_bytes inp) ss = (r1, s1, c1)"
    by (cases "transcribe_question client (audio_bytes inp) ss") auto
  have s1: "s1 = ss"
    using stt by (rule transcribe_question_frame)
  show ?thesis
  proof (cases r1)
    case (Inl e)
    then have "state (run_the_full_flow client inp ss t) = ss(''messages'' \<mapsto> ms @ [])"
      using stt s1 same by (simp add: run_the_full_flow_def)
    then show ?thesis
      by (intro exI [of _ "[]"]) simp
  next
    case q: (Inr q)
    obtain r2 s2 c2 where llm: "get_fort_siloso_answer client q s1 = (r2, s2, c2)"
      by (cases "get_fort_siloso_answer client q s1") auto
    obtain more where more: "s2 = ss(''messages'' \<mapsto> ms @ more)" "length more \<le> 2"
      "seed \<notin> set more"
      using get_fort_siloso_answer_appends [of ss ms client q] before llm s1 by auto
    have "state (run_the_full_flow client inp ss t) = s2"
    proof (cases r2)
      case (Inl e)
      then show ?thesis
        using stt q llm by (simp add: run_the_full_flow_def)
    next
      case a: (Inr a)
      obtain r3 s3 c3 where tts: "synthesize_answer client a (voice inp) s2 = (r3, s3, c3)"
        by (cases "synthesize_answer client a (voice inp) s2") auto
      have s3: "s3 = s2"
        using tts by (rule synthesize_answer_frame)
      show ?thesis
        using stt q llm a tts s3
        by (cases r3) (simp_all add: run_the_full_flow_def chat_history_panel_state)
    qed
    then show ?thesis
      using more by blast
  qed
qed

subsection \<open>The claims\<close>

text \<open>
  Claim C1 (seed invariant). Take any session: any list of executions of the script from
  the empty session state, each with any widget values and any behaviour of the remote
  services, so that turns succeed or fail at any stage and the history is reset at any
  point. Afterwards the history, when there is one, starts with the seed entry of lines 31
  to 50, and the seed entry occurs nowhere else in it: it is not removed, duplicated or
  moved. There is no history only when every execution stopped at line 25, because the
  secret was absent or the constructor of the client raised.
\<close>

theorem seed_message_stays_first:
  "case session inps Map.empty ''messages'' of
     None \<Rightarrow> list_all (\<lambda>inp. create_client inp = None) inps
   | Some ms \<Rightarrow> \<exists>rest. ms = seed # rest \<and> seed \<notin> set rest"
proof (cases "session inps Map.empty ''messages''")
  case None
  then show ?thesis
    using session_messages_None [of inps Map.empty] by simp
next
  case (Some ms)
  have "seed_kept Map.empty"
    by (simp add: seed_kept_def)
  then have "seed_kept (session inps Map.empty)"
    by (rule session_seed_kept)
  then have "history_ok ms"
    using Some by (simp add: seed_kept_def)
  then show ?thesis
    using Some history_ok_seed by simp
qed

text \<open>The statement above at the concrete session.\<close>

theorem seed_message_stays_first_witness:
  "session [no_key_input, bad_key_input, idle_input, demo_input, reset_input, llm_down_input]
     Map.empty ''messages'' = Some [seed, \<lparr>role = ''user'', content = demo_question\<rparr>]
   \<and> seed \<notin> set [\<lparr>role = ''user'', content = demo_question\<rparr>]"
proof -
  have run: "session
      [no_key_input, bad_key_input, idle_input, demo_input, reset_input, llm_down_input]
      Map.empty ''messages'' = Some [seed, \<lparr>role = ''user'', content = demo_question\<rparr>]"
    by (simp add: app_def Let_def session_init_def reset_conversation_def
        run_the_full_flow_def transcribe_question_def get_fort_siloso_answer_def
        synthesize_answer_def chat_history_panel_state demo_defs demo_wav_nonempty)
  show ?thesis
    using seed_message_stays_first
      [of "[no_key_input, bad_key_input, idle_input, demo_input, reset_input, llm_down_input]"]
      run
    by simp
qed



text \<open>
  Claim C3 (partial append on answer failure). In an execution in which transcription
  returns \<open>q\<close> and answer generation raises (the remote call fails, or its completion has
  no choice), the history \<open>ms\<close> becomes \<open>ms\<close> followed by exactly one entry, the user entry
  with content \<open>q\<close>; no assistant entry is added and the earlier entries are unchanged.
\<close>

theorem answer_failure_keeps_question_only:
  assumes key: "create_client inp = Some client"
    and btn: "\<not> clear_chat inp" "send_now inp" "truthy (audio_bytes inp)"
    and before: "session_init ss ''messages'' = Some ms"
    and stt: "transcribe_question client (audio_bytes inp) (session_init ss) = (Inr q, s1, c1)"
    and llm: "get_fort_siloso_answer client q s1 = (Inl e, s2, c2)"
  shows "state (app inp ss) =
           (session_init ss)(''messages'' \<mapsto> ms @ [\<lparr>role = ''user'', content = q\<rparr>])
         \<and> outcome (app inp ss) = Stopped"
proof -
  have s1: "s1 = session_init ss"
    using stt by (rule transcribe_question_frame)
  have s2: "s2 = (session_init ss)(''messages'' \<mapsto> ms @ [\<lparr>role = ''user'', content = q\<rparr>])"
    using get_fort_siloso_answer_Inl [OF _ llm] before s1 by simp
  show ?thesis
    unfolding app_flow [OF key btn] run_the_full_flow_def
    using stt llm s2 by (simp add: Let_def)
qed

text \<open>The statement above at the concrete session.\<close>

theorem answer_failure_keeps_question_only_witness:
  "get_fort_siloso_answer llm_down_client demo_question fresh_session =
     (Inl (ServiceError ''Connection error.''),
      [''messages'' \<mapsto> [seed, \<lparr>role = ''user'', content = demo_question\<rparr>]],
      [Chat \<lparr>model = ''gpt-4.1-mini'',
             messages = [seed, \<lparr>role = ''user'', content = demo_question\<rparr>],
             temperature = 4 / 10\<rparr>])
   \<and> state (app llm_down_input fresh_session) =
       [''messages'' \<mapsto> [seed, \<lparr>role = ''user'', content = demo_question\<rparr>]]
   \<and> outcome (app llm_down_input fresh_session) = Stopped"
proof -
  have key: "create_client llm_down_input = Some llm_down_client"
    by (simp add: demo_defs)
  have btn: "\<not> clear_chat llm_down_input" "send_now llm_down_input"
    "truthy (audio_bytes llm_down_input)"
    by (simp_all add: demo_defs demo_wav_nonempty)
  have before: "session_init fresh_session ''messages'' = Some [seed]"
    by (simp add: session_init_fresh) (simp add: fresh_session_def)
  have stt: "transcribe_question llm_down_client (audio_bytes llm_down_input)
               (session_init fresh_session) =
     (Inr demo_question, fresh_session,
      [Transcribe \<lparr>stt_model = ''gpt-4o-mini-transcribe'',
                   stt_file = \<lparr>file_name = ''question.wav'', file_data = demo_wav\<rparr>\<rparr>])"
    by (simp add: session_init_fresh transcribe_question_def demo_defs)
  have llm: "get_fort_siloso_answer llm_down_client demo_question fresh_session =
     (Inl (ServiceError ''Connection error.''),
      [''messages'' \<mapsto> [seed, \<lparr>role = ''user'', content = demo_question\<rparr>]],
      [Chat \<lparr>model = ''gpt-4.1-mini'',
             messages = [seed, \<lparr>role = ''user'', content = demo_question\<rparr>],
             temperature = 4 / 10\<rparr>])"
    by (simp add: get_fort_siloso_answer_def Let_def demo_defs fresh_session_def)
  have "state (app llm_down_input fresh_session) =
       [''messages'' \<mapsto> [seed, \<lparr>role = ''user'', content = demo_question\<rparr>]]
   \<and> outcome (app llm_down_input fresh_session) = Stopped"
    using answer_failure_keeps_question_only [OF key btn before stt llm]
    by (simp add: session_init_fresh) (simp add: fresh_session_def)
  then show ?thesis
    using llm by simp
qed

text \<open>
  Claim C4 (no mutation on transcription failure). In an execution in which transcription
  raises, the session state after the execution is the state after the initialisation of
  lines 30 to 50, which is the state before the execution whenever a history existed:
  same length, same content. Transcription itself neither writes the session state (it
  returns the state it was given) nor reads it (it returns the same result on any state).
\<close>

theorem transcription_failure_leaves_history:
  assumes key: "create_client inp = Some client"
    and btn: "\<not> clear_chat inp" "send_now inp" "truthy (audio_bytes inp)"
    and stt: "transcribe_question client (audio_bytes inp) (session_init ss) = (Inl e, s1, c1)"
  shows "state (app inp ss) = session_init ss
         \<and> (ss ''messages'' \<noteq> None \<longrightarrow> state (app inp ss) = ss)
         \<and> outcome (app inp ss) = Stopped
         \<and> fst (snd (transcribe_question cl ab s)) = s
         \<and> fst (transcribe_question cl ab s) = fst (transcribe_question cl ab s')"
proof -
  have s1: "s1 = session_init ss"
    using stt by (rule transcribe_question_frame)
  have run: "state (app inp ss) = session_init ss \<and> outcome (app inp ss) = Stopped"
    unfolding app_flow [OF key btn] run_the_full_flow_def
    using stt s1 by (simp add: Let_def)
  have kept: "ss ''messages'' \<noteq> None \<longrightarrow> session_init ss = ss"
    by (simp add: session_init_def)
  have frame: "fst (snd (transcribe_question cl ab s)) = s"
    by (simp add: transcribe_question_def Let_def split: sum.splits)
  have blind: "fst (transcribe_question cl ab s) = fst (transcribe_question cl ab s')"
    by (simp add: transcribe_question_def Let_def split: sum.splits)
  show ?thesis
    using run kept frame blind by simp
qed

text \<open>The statement above at the concrete session.\<close>

theorem transcription_failure_leaves_history_witness:
  "transcribe_question stt_down_client (audio_bytes stt_down_input) demo_session =
     (Inl (ServiceError ''Connection error.''), demo_session,
      [Transcribe \<lparr>stt_model = ''gpt-4o-mini-transcribe'',
                   stt_file = \<lparr>file_name = ''question.wav'', file_data = demo_wav\<rparr>\<rparr>])
   \<and> state (app stt_down_input demo_session) = demo_session
   \<and> outcome (app stt_down_input demo_session) = Stopped"
proof -
  have init: "session_init demo_session = demo_session"
    by (simp add: session_init_def demo_session_def)
  have some: "demo_session ''messages'' \<noteq> None"
    by (simp add: demo_session_def)
  have key: "create_client stt_down_input = Some stt_down_client"
    by (simp add: demo_defs)
  have btn: "\<not> clear_chat stt_down_input" "send_now stt_down_input"
    "truthy (audio_bytes stt_down_input)"
    by (simp_all add: demo_defs demo_wav_nonempty)
  have stt: "transcribe_question stt_down_client (audio_bytes stt_down_input)
               (session_init demo_session) =
     (Inl (ServiceError ''Connection error.''), demo_session,
      [Transcribe \<lparr>stt_model = ''gpt-4o-mini-transcribe'',
                   stt_file = \<lparr>file_name = ''question.wav'', file_data = demo_wav\<rparr>\<rparr>])"
    by (simp add: init transcribe_question_def demo_defs)
  show ?thesis
    using transcription_failure_leaves_history [OF key btn stt] stt some by (simp add: init)
qed

text \<open>
  Claim C5 (reset). On a history that starts with the seed entry, whatever follows it, an
  execution with the reset button pressed leaves exactly the one-element history holding
  the seed entry, and asks for a rerun. When the history was already the seed alone the
  state is unchanged, and a second reset leaves what the first one left.
\<close>

theorem reset_truncates_to_seed:
  assumes key: "create_client inp = Some client" and click: "clear_chat inp"
    and key': "create_client inp' = Some client'" and click': "clear_chat inp'"
    and before: "ss ''messages'' = Some (seed # rest)"
  shows "state (app inp ss) = ss(''messages'' \<mapsto> [seed])
         \<and> outcome (app inp ss) = Rerun
         \<and> (rest = [] \<longrightarrow> state (app inp ss) = ss)
         \<and> state (app inp' (state (app inp ss))) = state (app inp ss)"
proof -
  have once: "state (app inp ss) = ss(''messages'' \<mapsto> [seed]) \<and> outcome (app inp ss) = Rerun"
    using app_reset [of inp client ss seed rest] key click before by simp
  have same: "rest = [] \<longrightarrow> ss(''messages'' \<mapsto> [seed]) = ss"
    using before by (auto simp: fun_upd_idem_iff)
  have after: "(ss(''messages'' \<mapsto> [seed])) ''messages'' = Some (seed # [])"
    by simp
  have twice: "state (app inp' (ss(''messages'' \<mapsto> [seed]))) = ss(''messages'' \<mapsto> [seed])"
    using app_reset [of inp' client' "ss(''messages'' \<mapsto> [seed])" seed "[]"] key' click' after by simp
  show ?thesis
    using once same twice by simp
qed

text \<open>The statement above at the concrete session.\<close>

theorem reset_truncates_to_seed_witness:
  "state (app reset_input demo_session) = fresh_session
   \<and> outcome (app reset_input demo_session) = Rerun
   \<and> state (app reset_input (state (app reset_input demo_session))) = fresh_session"
proof -
  have key: "create_client reset_input = Some demo_client"
    by (simp add: demo_defs)
  have click: "clear_chat reset_input"
    by (simp add: demo_defs)
  have before: "demo_session ''messages'' =
      Some (seed # [\<lparr>role = ''user'', content = demo_question\<rparr>,
                    \<lparr>role = ''assistant'', content = demo_answer\<rparr>])"
    by (simp add: demo_session_def)
  have short: "demo_session(''messages'' \<mapsto> [seed]) = fresh_session"
    by (simp add: demo_session_def fresh_session_def)
  note reset =
    reset_truncates_to_seed
      [of reset_input demo_client reset_input demo_client demo_session
         "[\<lparr>role = ''user'', content = demo_question\<rparr>,
           \<lparr>role = ''assistant'', content = demo_answer\<rparr>]", OF key click key click before]
  have once: "state (app reset_input demo_session) = fresh_session"
    using reset by (simp add: short)
  have rerun: "outcome (app reset_input demo_session) = Rerun"
    using reset by simp
  have again: "state (app reset_input (state (app reset_input demo_session))) =
      state (app reset_input demo_session)"
    using reset by blast
  show ?thesis
    using once rerun trans [OF again once] by blast
qed

text \<open>
  Claim C6 (question appended before the call). For every question text \<open>q\<close> and history
  \<open>ms\<close>, answer generation makes exactly one remote call, the completion call, and the
  message sequence of its request is the whole history with the user entry for \<open>q\<close>
  appended, with temperature 0.4. Whatever the call answers, the history left behind
  extends \<open>ms\<close> and that user entry; when the call fails, it is exactly that.
\<close>

theorem answer_call_sees_appended_question:
  assumes before: "ss ''messages'' = Some ms"
  shows "snd (snd (get_fort_siloso_answer cl q ss)) =
           [Chat \<lparr>model = ''gpt-4.1-mini'',
                  messages = ms @ [\<lparr>role = ''user'', content = q\<rparr>],
                  temperature = 4 / 10\<rparr>]
         \<and> (\<exists>more. fst (snd (get_fort_siloso_answer cl q ss)) ''messages'' =
                     Some (ms @ [\<lparr>role = ''user'', content = q\<rparr>] @ more))
         \<and> (\<forall>e. chat_completions_create cl
                   \<lparr>model = ''gpt-4.1-mini'',
                    messages = ms @ [\<lparr>role = ''user'', content = q\<rparr>],
                    temperature = 4 / 10\<rparr> = Inl e \<longrightarrow>
                get_fort_siloso_answer cl q ss =
                  (Inl e, ss(''messages'' \<mapsto> ms @ [\<lparr>role = ''user'', content = q\<rparr>]),
                   [Chat \<lparr>model = ''gpt-4.1-mini'',
                          messages = ms @ [\<lparr>role = ''user'', content = q\<rparr>],
                          temperature = 4 / 10\<rparr>]))"
  using before
  by (simp add: get_fort_siloso_answer_def Let_def split: sum.splits list.splits)

text \<open>The statement above at the concrete session.\<close>

theorem answer_call_sees_appended_question_witness:
  "get_fort_siloso_answer demo_client demo_question fresh_session =
     (Inr demo_answer, demo_session,
      [Chat \<lparr>model = ''gpt-4.1-mini'',
             messages = [seed, \<lparr>role = ''user'', content = demo_question\<rparr>],
             temperature = 4 / 10\<rparr>])"
proof -
  have before: "fresh_session ''messages'' = Some [seed]"
    by (simp add: fresh_session_def)
  have calls: "snd (snd (get_fort_siloso_answer demo_client demo_question fresh_session)) =
      [Chat \<lparr>model = ''gpt-4.1-mini'',
             messages = [seed, \<lparr>role = ''user'', content = demo_question\<rparr>],
             temperature = 4 / 10\<rparr>]"
    using answer_call_sees_appended_question [of fresh_session "[seed]" demo_client demo_question]
      before by simp
  have rest: "fst (get_fort_siloso_answer demo_client demo_question fresh_session) = Inr demo_answer"
    "fst (snd (get_fort_siloso_answer demo_client demo_question fresh_session)) = demo_session"
    by (simp_all add: get_fort_siloso_answer_def Let_def demo_defs fresh_session_def demo_session_def)
  show ?thesis
    using calls rest by (simp add: prod_eq_iff)
qed

text \<open>
  Claim C7 (synthesis failure). In an execution in which transcription and answer
  generation succeed and synthesis raises, synthesis leaves the session state as it found
  it, so the history still ends with the user and assistant entries of this turn; the
  answer text has been written to the page (line 162) before the error box of the
  synthesis stage, which is the last thing rendered.
\<close>

theorem synthesis_failure_keeps_answer:
  assumes key: "create_client inp = Some client"
    and btn: "\<not> clear_chat inp" "send_now inp" "truthy (audio_bytes inp)"
    and before: "session_init ss ''messages'' = Some ms"
    and stt: "transcribe_question client (audio_bytes inp) (session_init ss) = (Inr q, s1, c1)"
    and llm: "get_fort_siloso_answer client q s1 = (Inr a, s2, c2)"
    and tts: "synthesize_answer client a (voice inp) s2 = (Inl e, s3, c3)"
  shows "s3 = s2
         \<and> state (app inp ss) =
             (session_init ss)(''messages'' \<mapsto>
                ms @ [\<lparr>role = ''user'', content = q\<rparr>, \<lparr>role = ''assistant'', content = a\<rparr>])
         \<and> UI (Write a) \<in> set (trace (app inp ss))
         \<and> last (trace (app inp ss)) = UI (ErrorBox (''TTS failed: '' @ str_exn e))
         \<and> outcome (app inp ss) = Stopped"
proof -
  have s1: "s1 = session_init ss"
    using stt by (rule transcribe_question_frame)
  have s2: "s2 = (session_init ss)(''messages'' \<mapsto>
              ms @ [\<lparr>role = ''user'', content = q\<rparr>, \<lparr>role = ''assistant'', content = a\<rparr>])"
    using get_fort_siloso_answer_Inr [OF _ llm] before s1 by simp
  have s3: "s3 = s2"
    using tts by (rule synthesize_answer_frame)
  show ?thesis
    unfolding app_flow [OF key btn] run_the_full_flow_def
    using stt llm tts s2 s3 by (simp add: Let_def)
qed

text \<open>The statement above at the concrete session.\<close>

theorem synthesis_failure_keeps_answer_witness:
  "synthesize_answer tts_down_client demo_answer (voice tts_down_input) demo_session =
     (Inl (ServiceError ''Connection error.''), demo_session,
      [Speech \<lparr>tts_model = ''gpt-4o-mini-tts'', tts_voice = ''alloy'', tts_input = demo_answer\<rparr>])
   \<and> state (app tts_down_input fresh_session) = demo_session
   \<and> UI (Write demo_answer) \<in> set (trace (app tts_down_input fresh_session))
   \<and> last (trace (app tts_down_input fresh_session)) =
       UI (ErrorBox ''TTS failed: Connection error.'')
   \<and> outcome (app tts_down_input fresh_session) = Stopped"
proof -
  have key: "create_client tts_down_input = Some tts_down_client"
    by (simp add: demo_defs)
  have btn: "\<not> clear_chat tts_down_input" "send_now tts_down_input"
    "truthy (audio_bytes tts_down_input)"
    by (simp_all add: demo_defs demo_wav_nonempty)
  have before: "session_init fresh_session ''messages'' = Some [seed]"
    by (simp add: session_init_fresh) (simp add: fresh_session_def)
  have stt: "transcribe_question tts_down_client (audio_bytes tts_down_input)
               (session_init fresh_session) =
     (Inr demo_question, fresh_session,
      [Transcribe \<lparr>stt_model = ''gpt-4o-mini-transcribe'',
                   stt_file = \<lparr>file_name = ''question.wav'', file_data = demo_wav\<rparr>\<rparr>])"
    by (simp add: session_init_fresh transcribe_question_def demo_defs)
  have llm: "get_fort_siloso_answer tts_down_client demo_question fresh_session =
     (Inr demo_answer, demo_session,
      [Chat \<lparr>model = ''gpt-4.1-mini'',
             messages = [seed, \<lparr>role = ''user'', content = demo_question\<rparr>],
             temperature = 4 / 10\<rparr>])"
    by (simp add: get_fort_siloso_answer_def Let_def demo_defs fresh_session_def demo_session_def)
  have tts: "synthesize_answer tts_down_client demo_answer (voice tts_down_input)
               demo_session =
     (Inl (ServiceError ''Connection error.''), demo_session,
      [Speech \<lparr>tts_model = ''gpt-4o-mini-tts'', tts_voice = ''alloy'', tts_input = demo_answer\<rparr>])"
    by (simp add: synthesize_answer_def demo_defs)
  have "state (app tts_down_input fresh_session) = demo_session
   \<and> UI (Write demo_answer) \<in> set (trace (app tts_down_input fresh_session))
   \<and> last (trace (app tts_down_input fresh_session)) =
       UI (ErrorBox ''TTS failed: Connection error.'')
   \<and> outcome (app tts_down_input fresh_session) = Stopped"
    using synthesis_failure_keeps_answer [OF key btn before stt llm tts]
    by (simp add: session_init_fresh) (simp add: fresh_session_def demo_session_def)
  then show ?thesis
    using tts by simp
qed

text \<open>
  Claim C8 (missing credential). When the secret \<open>OPENAI_API_KEY\<close> is absent, the
  execution renders the page configuration and one error box and stops. The text of the
  box names where to configure the key (Settings, then Secrets). The session state is
  untouched, no control (voice choice, recorder, send or reset button) is rendered and no
  remote call is made.
\<close>

theorem missing_credential_halts_startup:
  assumes absent: "secrets inp ''OPENAI_API_KEY'' = None"
  shows "app inp ss =
           \<lparr>state = ss, trace = page_config @ [UI (ErrorBox missing_key_message)],
            outcome = Stopped\<rparr>
         \<and> (\<exists>pre post. missing_key_message =
               pre @ ''go to: **Settings '' @ rightarrow @ '' Secrets**'' @ post)
         \<and> (\<forall>ev \<in> set (trace (app inp ss)). \<not> widget ev \<and> \<not> remote_call ev)"
proof -
  have run: "app inp ss =
           \<lparr>state = ss, trace = page_config @ [UI (ErrorBox missing_key_message)],
            outcome = Stopped\<rparr>"
    using absent by (simp add: app_def create_client_def)
  have msg: "missing_key_message =
      (''OPENAI_API_KEY is not set.'' @ nl @ nl @ ''On Streamlit Cloud, '') @
      ''go to: **Settings '' @ rightarrow @ '' Secrets**'' @
      ('' and add:'' @ nl @ ''OPENAI_API_KEY = your_real_key_here'')"
    by (simp add: missing_key_message_def)
  have quiet: "\<forall>ev \<in> set (trace (app inp ss)). \<not> widget ev \<and> \<not> remote_call ev"
    using page_config_quiet by (auto simp: run)
  show ?thesis
    using run msg quiet by blast
qed

text \<open>The statement above at the concrete session.\<close>

theorem missing_credential_halts_startup_witness:
  "secrets no_key_input ''OPENAI_API_KEY'' = None
   \<and> app no_key_input demo_session =
       \<lparr>state = demo_session,
        trace = [UI (PageConfig ''Fort Siloso Voice Guide'' microphone ''centered''),
                 UI (ErrorBox missing_key_message)],
        outcome = Stopped\<rparr>"
proof -
  have absent: "secrets no_key_input ''OPENAI_API_KEY'' = None"
    by (simp add: demo_defs)
  show ?thesis
    using missing_credential_halts_startup [OF absent, of demo_session] absent
    by (simp add: page_config_def)
qed

text \<open>
  Claim C9 (send needs a recording). In every execution, a remote call of the pipeline is
  made only if the send button returned true and the recorder holds a non-empty byte
  sequence. The send button is rendered with its \<open>disabled\<close> flag set exactly when there is
  no such recording, and it is rendered in every execution that creates the client.
\<close>

theorem pipeline_needs_captured_audio:
  "((\<exists>ev \<in> set (trace (app inp ss)). remote_call ev) \<longrightarrow>
      send_now inp \<and> (\<exists>b. audio_bytes inp = Some b \<and> b \<noteq> []))
   \<and> (\<forall>p d. UI (Button ''Ask in voice'' p d) \<in> set (trace (app inp ss)) \<longrightarrow>
         d = (\<not> truthy (audio_bytes inp)))
   \<and> (create_client inp \<noteq> None \<longrightarrow>
         UI (Button ''Ask in voice'' True (\<not> truthy (audio_bytes inp))) \<in> set (trace (app inp ss)))"
proof -
  let ?t = "page_config @ page_ui (audio_bytes inp)"
  have audio: "truthy (audio_bytes inp) \<Longrightarrow> \<exists>b. audio_bytes inp = Some b \<and> b \<noteq> []"
    by (cases "audio_bytes inp") auto
  have t_quiet: "\<forall>ev \<in> set ?t. \<not> remote_call ev"
    using page_config_quiet page_ui_no_call by auto
  have calls: "(\<exists>ev \<in> set (trace (app inp ss)). remote_call ev) \<longrightarrow>
      send_now inp \<and> (\<exists>b. audio_bytes inp = Some b \<and> b \<noteq> [])"
  proof (cases "send_now inp \<and> truthy (audio_bytes inp)")
    case True
    then show ?thesis using audio by simp
  next
    case False
    obtain rest where rest: "trace (chat_history_panel (session_init ss) ?t) = ?t @ rest"
      "\<forall>ev \<in> set rest. \<not> widget ev \<and> \<not> remote_call ev"
      using chat_history_panel_trace by blast
    have "\<forall>ev \<in> set (trace (app inp ss)). \<not> remote_call ev"
      using False t_quiet rest page_config_quiet
      by (auto simp: app_def Let_def reset_conversation_def split: option.splits)
    then show ?thesis by blast
  qed
  obtain rest1 where rest1: "trace (chat_history_panel (session_init ss) ?t) = ?t @ rest1"
    "\<forall>ev \<in> set rest1. \<not> widget ev \<and> \<not> remote_call ev"
    using chat_history_panel_trace by blast
  have rest2: "\<forall>c. \<exists>rest. trace (run_the_full_flow c inp (session_init ss) ?t) = ?t @ rest \<and>
                 (\<forall>ev \<in> set rest. \<not> widget ev)"
    using run_the_full_flow_trace by blast
  have shape: "trace (app inp ss) = page_config @ [UI (ErrorBox missing_key_message)] \<and>
                 create_client inp = None
               \<or> (\<exists>rest. trace (app inp ss) = ?t @ rest \<and> (\<forall>ev \<in> set rest. \<not> widget ev))"
    using rest1 rest2
    by (auto simp: app_def Let_def reset_conversation_def split: option.splits)
  have only: "\<forall>p d. UI (Button ''Ask in voice'' p d) \<in> set (trace (app inp ss)) \<longrightarrow>
         d = (\<not> truthy (audio_bytes inp))"
  proof (intro allI impI)
    fix p d
    assume mem: "UI (Button ''Ask in voice'' p d) \<in> set (trace (app inp ss))"
    have w: "widget (UI (Button ''Ask in voice'' p d))"
      by simp
    have "UI (Button ''Ask in voice'' p d) \<in> set (page_ui (audio_bytes inp))"
      using shape
    proof
      assume "trace (app inp ss) = page_config @ [UI (ErrorBox missing_key_message)] \<and>
                 create_client inp = None"
      then show ?thesis
        using mem by (simp add: page_config_def)
    next
      assume "\<exists>rest. trace (app inp ss) = ?t @ rest \<and> (\<forall>ev \<in> set rest. \<not> widget ev)"
      then obtain rest where rest: "trace (app inp ss) = ?t @ rest"
        "\<forall>ev \<in> set rest. \<not> widget ev"
        by blast
      have "UI (Button ''Ask in voice'' p d) \<notin> set rest"
        using rest(2) w by blast
      then show ?thesis
        using mem rest(1) by (simp add: page_config_def)
    qed
    then show "d = (\<not> truthy (audio_bytes inp))"
      by (rule page_ui_send_button_only)
  qed
  have shown: "create_client inp \<noteq> None \<longrightarrow>
         UI (Button ''Ask in voice'' True (\<not> truthy (audio_bytes inp))) \<in> set (trace (app inp ss))"
    using shape page_ui_send_button [of "audio_bytes inp"] by auto
  show ?thesis
    using calls only shown by blast
qed

text \<open>The statement above at the concrete session.\<close>

theorem pipeline_needs_captured_audio_witness:
  "Call (Transcribe \<lparr>stt_model = ''gpt-4o-mini-transcribe'',
                     stt_file = \<lparr>file_name = ''question.wav'', file_data = demo_wav\<rparr>\<rparr>)
     \<in> set (trace (app demo_input fresh_session))
   \<and> send_now demo_input \<and> audio_bytes demo_input = Some demo_wav \<and> demo_wav \<noteq> []
   \<and> UI (Button ''Ask in voice'' True False) \<in> set (trace (app demo_input fresh_session))"
proof -
  have key: "create_client demo_input \<noteq> None"
    by (simp add: demo_defs)
  have audio: "audio_bytes demo_input = Some demo_wav" "send_now demo_input"
    by (simp_all add: demo_defs)
  have called: "Call (Transcribe \<lparr>stt_model = ''gpt-4o-mini-transcribe'',
                     stt_file = \<lparr>file_name = ''question.wav'', file_data = demo_wav\<rparr>\<rparr>)
     \<in> set (trace (app demo_input fresh_session))"
    by (simp add: app_def Let_def run_the_full_flow_def transcribe_question_def
        get_fort_siloso_answer_def synthesize_answer_def chat_history_panel_def
        session_init_def fresh_session_def demo_defs demo_wav_nonempty)
  then have "\<exists>ev \<in> set (trace (app demo_input fresh_session)). remote_call ev"
    by (rule rev_bexI) simp
  then show ?thesis
    using pipeline_needs_captured_audio [of demo_input fresh_session] key audio called
    by (simp add: demo_wav_nonempty)
qed

text \<open>
  Claim C10 (initialisation is idempotent). The initialisation of lines 30 to 50 creates
  the seed history only when the session state has no history; on a state that has one it
  changes nothing, so running it again changes nothing. Hence in every rerun of the whole
  script, whatever the widgets return and whatever the remote services answer, an
  existing history \<open>ms\<close> is what the handlers work on, and the rest of the session state
  is untouched: the history is \<open>ms\<close> itself when the client cannot be created or no button
  returned true, the first entry of \<open>ms\<close> after the reset button, and \<open>ms\<close> followed by at
  most two new entries, none of them the seed entry, after the send button. In particular
  a history that starts with the seed entry and holds it once still does afterwards.
\<close>

theorem rerun_preserves_history:
  "session_init (session_init ss) = session_init ss
   \<and> (ss ''messages'' = None \<longrightarrow> session_init ss = ss(''messages'' \<mapsto> [seed]))
   \<and> (\<forall>ms. ss ''messages'' = Some ms \<longrightarrow>
         session_init ss = ss
         \<and> (\<exists>ms'. state (app inp ss) = ss(''messages'' \<mapsto> ms')
               \<and> (if create_client inp = None then ms' = ms
                   else if clear_chat inp then ms' = take 1 ms
                   else if send_now inp \<and> truthy (audio_bytes inp)
                        then \<exists>more. ms' = ms @ more \<and> length more \<le> 2 \<and> seed \<notin> set more
                   else ms' = ms)
               \<and> (\<forall>rest. ms = seed # rest \<and> seed \<notin> set rest \<longrightarrow>
                     (\<exists>rest'. ms' = seed # rest' \<and> seed \<notin> set rest'))))"
proof (intro conjI allI impI)
  show "session_init (session_init ss) = session_init ss"
    by (simp add: session_init_def)
next
  assume "ss ''messages'' = None"
  then show "session_init ss = ss(''messages'' \<mapsto> [seed])"
    by (simp add: session_init_def)
next
  fix ms
  assume before: "ss ''messages'' = Some ms"
  then show "session_init ss = ss"
    by (simp add: session_init_def)
next
  fix ms
  assume before: "ss ''messages'' = Some ms"
  have init: "session_init ss = ss"
    using before by (simp add: session_init_def)
  have same: "ss(''messages'' \<mapsto> ms) = ss"
    using before by (simp add: map_upd_triv)
  let ?shape = "\<lambda>ms'. if create_client inp = None then ms' = ms
                   else if clear_chat inp then ms' = take 1 ms
                   else if send_now inp \<and> truthy (audio_bytes inp)
                        then \<exists>more. ms' = ms @ more \<and> length more \<le> 2 \<and> seed \<notin> set more
                   else ms' = ms"
  have run: "\<exists>ms'. state (app inp ss) = ss(''messages'' \<mapsto> ms') \<and> ?shape ms'"
  proof (cases "create_client inp")
    case None
    then show ?thesis
      using same by (intro exI [of _ ms]) (simp add: app_without_key)
  next
    case (Some client)
    show ?thesis
    proof (cases "clear_chat inp")
      case True
      then show ?thesis
        using Some before init
        by (intro exI [of _ "take 1 ms"]) (simp add: app_def Let_def reset_conversation_def)
    next
      case False
      show ?thesis
      proof (cases "send_now inp \<and> truthy (audio_bytes inp)")
        case True
        obtain more where more:
          "state (run_the_full_flow client inp ss (page_config @ page_ui (audio_bytes inp))) =
             ss(''messages'' \<mapsto> ms @ more)" "length more \<le> 2" "seed \<notin> set more"
          using run_the_full_flow_appends
                  [of ss ms client inp "page_config @ page_ui (audio_bytes inp)"] before
          by blast
        have "state (app inp ss) = ss(''messages'' \<mapsto> ms @ more)"
          using Some False True init more(1) by (simp add: app_def Let_def)
        then show ?thesis
          using Some False True more(2,3) by (intro exI [of _ "ms @ more"]) auto
      next
        case idle: False
        have "state (app inp ss) = ss(''messages'' \<mapsto> ms)"
          using Some False idle init same
          by (auto simp: app_def Let_def chat_history_panel_state)
        then show ?thesis
          using Some False idle by (intro exI [of _ ms]) auto
      qed
    qed
  qed
  then obtain ms' where ms': "state (app inp ss) = ss(''messages'' \<mapsto> ms')" "?shape ms'"
    by blast
  have kept: "\<forall>rest. ms = seed # rest \<and> seed \<notin> set rest \<longrightarrow>
                 (\<exists>rest'. ms' = seed # rest' \<and> seed \<notin> set rest')"
    using ms'(2) by (auto split: if_splits)
  show "\<exists>ms'. state (app inp ss) = ss(''messages'' \<mapsto> ms') \<and> ?shape ms'
          \<and> (\<forall>rest. ms = seed # rest \<and> seed \<notin> set rest \<longrightarrow>
                (\<exists>rest'. ms' = seed # rest' \<and> seed \<notin> set rest'))"
    using ms' kept by blast
qed

text \<open>The statement above at the concrete session, for a rerun caused by the send button.\<close>

theorem rerun_preserves_history_witness:
  "demo_session ''messages'' =
     Some [seed, \<lparr>role = ''user'', content = demo_question\<rparr>,
           \<lparr>role = ''assistant'', content = demo_answer\<rparr>]
   \<and> create_client demo_input \<noteq> None \<and> \<not> clear_chat demo_input
   \<and> send_now demo_input \<and> truthy (audio_bytes demo_input)
   \<and> session_init demo_session = demo_session
   \<and> (\<exists>more. state (app demo_input demo_session) =
                demo_session(''messages'' \<mapsto>
                  [seed, \<lparr>role = ''user'', content = demo_question\<rparr>,
                   \<lparr>role = ''assistant'', content = demo_answer\<rparr>] @ more)
              \<and> length more \<le> 2 \<and> seed \<notin> set more)"
proof -
  have before: "demo_session ''messages'' =
     Some [seed, \<lparr>role = ''user'', content = demo_question\<rparr>,
           \<lparr>role = ''assistant'', content = demo_answer\<rparr>]"
    by (simp add: demo_session_def)
  have pressed: "create_client demo_input \<noteq> None" "\<not> clear_chat demo_input"
    "send_now demo_input" "truthy (audio_bytes demo_input)"
    by (simp_all add: demo_defs demo_wav_nonempty)
  show ?thesis
    using rerun_preserves_history [of demo_session demo_input] before pressed
    by auto
qed

end
